theory Spec2Isabelle
  imports Complex_Main "HOL-Library.AList"
begin

section \<open>Values, exceptions and the environment\<close>

text \<open>
  The server (\<^verbatim>\<open>src/server/server.py\<close>) exchanges JSON documents. A decoded document is a
  value of \<open>json\<close>; a Python \<^verbatim>\<open>dict\<close> is an association list in insertion order that is
  read with \<open>map_of\<close>. Python's \<^verbatim>\<open>int\<close> and \<^verbatim>\<open>float\<close> are both \<open>JNum\<close> (a real number:
  rounding of floats is not modelled), \<^verbatim>\<open>None\<close> is \<open>JNull\<close>, and \<open>JIso t\<close> stands for the
  string \<^verbatim>\<open>t.isoformat()\<close> of a datetime \<open>t\<close>.
\<close>

type_synonym time = int
type_synonym websocket = nat

datatype json =
    JNull
  | JBool bool
  | JNum real
  | JStr string
  | JIso time
  | JArr "json list"
  | JObj "(string \<times> json) list"

datatype exn =
    KeyError
  | TypeError
  | AttributeError
  | IntegrityError
  | WebSocketDisconnect
  | HTTPException nat string

text \<open>\<^verbatim>\<open>d.get(k, default)\<close> on a dict.\<close>

definition dict_get :: "(string \<times> json) list \<Rightarrow> string \<Rightarrow> json \<Rightarrow> json" where
  "dict_get d k dflt = (case map_of d k of None \<Rightarrow> dflt | Some v \<Rightarrow> v)"

text \<open>\<^verbatim>\<open>x.get(k, default)\<close> on any decoded value: only a dict has the method.\<close>

definition py_get :: "json \<Rightarrow> string \<Rightarrow> json \<Rightarrow> exn + json" where
  "py_get x k dflt = (case x of JObj d \<Rightarrow> Inr (dict_get d k dflt) | _ \<Rightarrow> Inl AttributeError)"

text \<open>\<^verbatim>\<open>x[k]\<close> with a string key \<open>k\<close>: a missing key of a dict is a KeyError, and no other
  decoded value can be subscripted with a string.\<close>

definition py_index :: "json \<Rightarrow> string \<Rightarrow> exn + json" where
  "py_index x k =
     (case x of
        JObj d \<Rightarrow> (case map_of d k of None \<Rightarrow> Inl KeyError | Some v \<Rightarrow> Inr v)
      | _ \<Rightarrow> Inl TypeError)"

text \<open>\<^verbatim>\<open>for op in x\<close>: a list yields its elements, a dict its keys, a string its characters;
  nothing else is iterable.\<close>

definition py_iter :: "json \<Rightarrow> exn + json list" where
  "py_iter x =
     (case x of
        JArr xs \<Rightarrow> Inr xs
      | JObj d \<Rightarrow> Inr (map (\<lambda>kv. JStr (fst kv)) d)
      | JStr s \<Rightarrow> Inr (map (\<lambda>c. JStr [c]) s)
      | _ \<Rightarrow> Inl TypeError)"

text \<open>\<^verbatim>\<open>x == n\<close> for an integer \<open>n\<close>: numbers compare by value, \<^verbatim>\<open>True\<close> and \<^verbatim>\<open>False\<close>
  are the integers 1 and 0, and every other value differs from every integer.\<close>

definition py_eq_int :: "json \<Rightarrow> int \<Rightarrow> bool" where
  "py_eq_int x n =
     (case x of
        JNum r \<Rightarrow> r = of_int n
      | JBool b \<Rightarrow> (if b then 1 else 0) = n
      | _ \<Rightarrow> False)"

text \<open>\<^verbatim>\<open>abs(x)\<close>: defined on numbers (and on booleans, as integers), a TypeError elsewhere.\<close>

definition py_abs :: "json \<Rightarrow> exn + real" where
  "py_abs x =
     (case x of
        JNum r \<Rightarrow> Inr \<bar>r\<bar>
      | JBool b \<Rightarrow> Inr (if b then 1 else 0)
      | _ \<Rightarrow> Inl TypeError)"

text \<open>
  What the handlers read from outside the program: the system clock
  (\<^verbatim>\<open>datetime.utcnow()\<close>, the \<open>n\<close>-th reading), the identifier generator (\<^verbatim>\<open>uuid.uuid4()\<close>, the
  \<open>n\<close>-th identifier), whether the \<open>n\<close>-th call of \<^verbatim>\<open>send_json\<close> raises, and whether
  \<^verbatim>\<open>accept()\<close> raises on a given socket.
\<close>

record env =
  utcnow :: "nat \<Rightarrow> time"
  uuid4 :: "nat \<Rightarrow> string"
  send_raises :: "nat \<Rightarrow> bool"
  accept_raises :: "websocket \<Rightarrow> bool"

section \<open>The data model\<close>

text \<open>
  \<^verbatim>\<open>class DataRecord(Base)\<close>: the columns of the table \<^verbatim>\<open>records\<close>. The attributes \<open>title\<close>,
  \<open>value\<close> and \<open>computed_result\<close> hold whatever decoded value the handlers assign; the
  database is taken to give back what was committed.
\<close>

record data_record =
  record_id :: string
  title :: json
  value' :: json
  computed_result :: json
  created_at :: time
  updated_at :: time
  version :: int

text \<open>An entry of \<^verbatim>\<open>ConnectionManager.device_registry\<close>.\<close>

record device_info =
  type' :: json
  connected_at :: time
  last_sync :: json

text \<open>
  The state the handlers share: the table, the two dicts of the global \<^verbatim>\<open>manager\<close>, the
  calls of \<^verbatim>\<open>send_json\<close> made so far (device id, socket, message, and whether the call
  returned, that is, the message was delivered), and how many times the clock, the
  identifier generator and \<^verbatim>\<open>send_json\<close> have been used.
\<close>

record world =
  db :: "data_record list"
  active_connections :: "(string \<times> websocket) list"
  device_registry :: "(string \<times> device_info) list"
  outbox :: "(string \<times> websocket \<times> json \<times> bool) list"
  clock_reads :: nat
  uuid_reads :: nat
  send_calls :: nat

text \<open>The result of a call: the exception raised or the value returned, and the state
  the call leaves.\<close>

type_synonym outcome = "(exn + json) \<times> world"

section \<open>ConnectionManager\<close>

text \<open>\<^verbatim>\<open>await connection.send_json(message)\<close>; the caller asks \<open>send_raises\<close> whether it raised.\<close>

definition send_json :: "env \<Rightarrow> string \<Rightarrow> websocket \<Rightarrow> json \<Rightarrow> world \<Rightarrow> world" where
  "send_json e device_id connection message w =
     w\<lparr>outbox := outbox w @ [(device_id, connection, message, \<not> send_raises e (send_calls w))],
       send_calls := Suc (send_calls w)\<rparr>"

definition disconnect :: "string \<Rightarrow> world \<Rightarrow> outcome" where
  "disconnect device_id w =
     (case map_of (active_connections w) device_id of
        None \<Rightarrow> (Inr JNull, w)
      | Some _ \<Rightarrow>
          (let w1 = w\<lparr>active_connections := AList.delete device_id (active_connections w)\<rparr>
           in case map_of (device_registry w1) device_id of
                None \<Rightarrow> (Inl KeyError, w1)
              | Some _ \<Rightarrow>
                  (Inr JNull,
                   w1\<lparr>device_registry := AList.delete device_id (device_registry w1)\<rparr>)))"

text \<open>The test \<^verbatim>\<open>exclude_device and device_id == exclude_device\<close>: \<^verbatim>\<open>None\<close> and the empty
  string are false in Python, so neither excludes a device.\<close>

definition is_excluded :: "string option \<Rightarrow> string \<Rightarrow> bool" where
  "is_excluded exclude_device device_id =
     (case exclude_device of None \<Rightarrow> False | Some x \<Rightarrow> x \<noteq> [] \<and> device_id = x)"

text \<open>The first loop of \<open>broadcast\<close>, over the items of \<open>active_connections\<close>; \<open>disconnected\<close>
  collects the devices whose send raised.\<close>

fun sweep :: "env \<Rightarrow> json \<Rightarrow> string option \<Rightarrow> (string \<times> websocket) list \<Rightarrow> string list
    \<Rightarrow> world \<Rightarrow> string list \<times> world" where
  "sweep e message exclude_device [] disconnected w = (disconnected, w)"
| "sweep e message exclude_device ((device_id, connection) # rest) disconnected w =
     (if is_excluded exclude_device device_id
      then sweep e message exclude_device rest disconnected w
      else if send_raises e (send_calls w)
      then sweep e message exclude_device rest (disconnected @ [device_id])
             (send_json e device_id connection message w)
      else sweep e message exclude_device rest disconnected
             (send_json e device_id connection message w))"

text \<open>The second loop of \<open>broadcast\<close>: \<^verbatim>\<open>for device_id in disconnected: self.disconnect(device_id)\<close>.\<close>

fun prune :: "string list \<Rightarrow> world \<Rightarrow> outcome" where
  "prune [] w = (Inr JNull, w)"
| "prune (device_id # rest) w =
     (case disconnect device_id w of
        (Inl x, w1) \<Rightarrow> (Inl x, w1)
      | (Inr _, w1) \<Rightarrow> prune rest w1)"

text \<open>\<open>broadcast\<close> has no \<^verbatim>\<open>return\<close> statement: its value is \<^verbatim>\<open>None\<close>.\<close>

definition broadcast :: "env \<Rightarrow> json \<Rightarrow> string option \<Rightarrow> world \<Rightarrow> outcome" where
  "broadcast e message exclude_device w =
     (case sweep e message exclude_device (active_connections w) [] w of
        (disconnected, w1) \<Rightarrow>
          (case prune disconnected w1 of
             (Inl x, w2) \<Rightarrow> (Inl x, w2)
           | (Inr _, w2) \<Rightarrow> (Inr JNull, w2)))"

definition broadcast_status :: "env \<Rightarrow> world \<Rightarrow> outcome" where
  "broadcast_status e w =
     broadcast e
       (JObj [(''type'', JStr ''device_status''),
              (''connected_devices'', JArr (map (\<lambda>kv. JStr (fst kv)) (device_registry w))),
              (''timestamp'', JIso (utcnow e (clock_reads w)))])
       None
       (w\<lparr>clock_reads := Suc (clock_reads w)\<rparr>)"

definition connect :: "env \<Rightarrow> websocket \<Rightarrow> string \<Rightarrow> world \<Rightarrow> outcome" where
  "connect e websocket device_id w =
     (if accept_raises e websocket then (Inl WebSocketDisconnect, w)
      else broadcast_status e
             (w\<lparr>active_connections := AList.update device_id websocket (active_connections w),
                device_registry :=
                  AList.update device_id
                    \<lparr>type' = JStr ''unknown'', connected_at = utcnow e (clock_reads w),
                     last_sync = JNull\<rparr>
                    (device_registry w),
                clock_reads := Suc (clock_reads w)\<rparr>))"

definition send_personal_message :: "env \<Rightarrow> string \<Rightarrow> json \<Rightarrow> world \<Rightarrow> outcome" where
  "send_personal_message e device_id message w =
     (case map_of (active_connections w) device_id of
        None \<Rightarrow> (Inr JNull, w)
      | Some connection \<Rightarrow>
          (if send_raises e (send_calls w)
           then disconnect device_id (send_json e device_id connection message w)
           else (Inr JNull, send_json e device_id connection message w)))"

section \<open>The table of records\<close>

text \<open>\<^verbatim>\<open>db.query(DataRecord).filter(DataRecord.id == x).first()\<close>. The primary key is a string
  (a UUID): a value \<open>x\<close> that is not a string matches no row.\<close>

definition first_by_id :: "json \<Rightarrow> data_record list \<Rightarrow> data_record option" where
  "first_by_id x rows =
     (case x of JStr s \<Rightarrow> find (\<lambda>r. record_id r = s) rows | _ \<Rightarrow> None)"

text \<open>
  \<^verbatim>\<open>db.add(DataRecord(title=t, value=v)); db.commit()\<close>. The column defaults are evaluated
  at the insert, one call each: \<^verbatim>\<open>uuid.uuid4()\<close> for \<open>id\<close>, \<^verbatim>\<open>datetime.utcnow\<close> for
  \<open>created_at\<close> and again for \<open>updated_at\<close>, the constant 1 for \<open>version\<close>;
  \<open>computed_result\<close> has no default and is NULL. A primary key that is already in the
  table is rejected.
\<close>

definition new_record :: "env \<Rightarrow> json \<Rightarrow> json \<Rightarrow> world \<Rightarrow> data_record" where
  "new_record e t v w =
     \<lparr>record_id = uuid4 e (uuid_reads w), title = t, value' = v, computed_result = JNull,
      created_at = utcnow e (clock_reads w), updated_at = utcnow e (Suc (clock_reads w)),
      version = 1\<rparr>"

definition add_commit :: "env \<Rightarrow> json \<Rightarrow> json \<Rightarrow> world \<Rightarrow> (exn + data_record) \<times> world" where
  "add_commit e t v w =
     (let record = new_record e t v w;
          w1 = w\<lparr>uuid_reads := Suc (uuid_reads w), clock_reads := Suc (Suc (clock_reads w))\<rparr>
      in case find (\<lambda>r. record_id r = record_id record) (db w) of
           Some _ \<Rightarrow> (Inl IntegrityError, w1)
         | None \<Rightarrow> (Inr record, w1\<lparr>db := db w @ [record]\<rparr>))"

text \<open>\<^verbatim>\<open>db.commit()\<close> after the attributes of the loaded row \<open>record\<close> were assigned.\<close>

definition commit_record :: "data_record \<Rightarrow> data_record list \<Rightarrow> data_record list" where
  "commit_record record rows =
     map (\<lambda>r. if record_id r = record_id record then record else r) rows"

text \<open>\<^verbatim>\<open>db.delete(record); db.commit()\<close>.\<close>

definition delete_commit :: "data_record \<Rightarrow> data_record list \<Rightarrow> data_record list" where
  "delete_commit record rows = filter (\<lambda>r. record_id r \<noteq> record_id record) rows"

text \<open>An integer as a JSON number.\<close>

definition JInt :: "int \<Rightarrow> json" where
  "JInt n = JNum (of_int n)"

section \<open>REST endpoints\<close>

text \<open>The body of a POST or PUT is declared \<^verbatim>\<open>payload: dict\<close>: the framework hands the
  handler a dict.\<close>

definition create_data :: "env \<Rightarrow> (string \<times> json) list \<Rightarrow> world \<Rightarrow> outcome" where
  "create_data e payload w =
     (case add_commit e (dict_get payload ''title'' JNull) (dict_get payload ''value'' (JNum 0)) w of
        (Inl x, w1) \<Rightarrow> (Inl x, w1)
      | (Inr record, w1) \<Rightarrow>
          (case broadcast e
                  (JObj [(''type'', JStr ''data_created''),
                         (''data'', JObj [(''id'', JStr (record_id record)),
                                          (''title'', title record),
                                          (''value'', value' record),
                                          (''version'', JInt (version record))]),
                         (''timestamp'', JIso (utcnow e (clock_reads w1)))])
                  None
                  (w1\<lparr>clock_reads := Suc (clock_reads w1)\<rparr>) of
             (Inl x, w2) \<Rightarrow> (Inl x, w2)
           | (Inr _, w2) \<Rightarrow>
               (Inr (JObj [(''id'', JStr (record_id record)),
                           (''version'', JInt (version record))]), w2)))"

definition update_data :: "env \<Rightarrow> string \<Rightarrow> (string \<times> json) list \<Rightarrow> world \<Rightarrow> outcome" where
  "update_data e rid payload w =
     (case first_by_id (JStr rid) (db w) of
        None \<Rightarrow> (Inl (HTTPException 404 ''Not found''), w)
      | Some record \<Rightarrow>
          (let client_version = dict_get payload ''version'' (JNum 0)
           in if \<not> py_eq_int client_version 0 \<and> \<not> py_eq_int client_version (version record)
              then (Inr (JObj [(''error'', JStr ''version_conflict''),
                               (''current_version'', JInt (version record)),
                               (''status'', JStr ''conflict'')]), w)
              else
                (let record1 = record
                       \<lparr>title := dict_get payload ''title'' (title record),
                        value' := dict_get payload ''value'' (value' record),
                        computed_result :=
                          dict_get payload ''computed_result'' (computed_result record),
                        version := version record + 1,
                        updated_at := utcnow e (clock_reads w)\<rparr>
                 in case broadcast e
                         (JObj [(''type'', JStr ''data_updated''),
                                (''data'', JObj [(''id'', JStr (record_id record1)),
                                                 (''title'', title record1),
                                                 (''value'', value' record1),
                                                 (''computed_result'', computed_result record1),
                                                 (''version'', JInt (version record1))]),
                                (''timestamp'', JIso (updated_at record1))])
                         None
                         (w\<lparr>db := commit_record record1 (db w),
                            clock_reads := Suc (clock_reads w)\<rparr>) of
                      (Inl x, w2) \<Rightarrow> (Inl x, w2)
                    | (Inr _, w2) \<Rightarrow>
                        (Inr (JObj [(''version'', JInt (version record1)),
                                    (''status'', JStr ''updated'')]), w2))))"

definition delete_data :: "env \<Rightarrow> string \<Rightarrow> world \<Rightarrow> outcome" where
  "delete_data e rid w =
     (case first_by_id (JStr rid) (db w) of
        None \<Rightarrow> (Inl (HTTPException 404 ''Not found''), w)
      | Some record \<Rightarrow>
          (case broadcast e
                  (JObj [(''type'', JStr ''data_deleted''),
                         (''record_id'', JStr rid),
                         (''timestamp'', JIso (utcnow e (clock_reads w)))])
                  None
                  (w\<lparr>db := delete_commit record (db w), clock_reads := Suc (clock_reads w)\<rparr>) of
             (Inl x, w2) \<Rightarrow> (Inl x, w2)
           | (Inr _, w2) \<Rightarrow> (Inr (JObj [(''status'', JStr ''deleted'')]), w2)))"

section \<open>The WebSocket endpoint\<close>

subsection \<open>Replay of the offline queue\<close>

text \<open>The branch \<^verbatim>\<open>op["type"] == "create"\<close>.\<close>

definition replay_create :: "env \<Rightarrow> string \<Rightarrow> json \<Rightarrow> world \<Rightarrow> outcome" where
  "replay_create e device_id op w =
     (case py_index op ''data'' of
        Inl x \<Rightarrow> (Inl x, w)
      | Inr d \<Rightarrow>
          (case py_get d ''title'' JNull of
             Inl x \<Rightarrow> (Inl x, w)
           | Inr t \<Rightarrow>
               (case py_get d ''value'' JNull of
                  Inl x \<Rightarrow> (Inl x, w)
                | Inr v \<Rightarrow>
                    (case add_commit e t v w of
                       (Inl x, w1) \<Rightarrow> (Inl x, w1)
                     | (Inr record, w1) \<Rightarrow>
                         broadcast e
                           (JObj [(''type'', JStr ''data_created''),
                                  (''data'', JObj [(''id'', JStr (record_id record)),
                                                   (''title'', title record),
                                                   (''value'', value' record)])])
                           (Some device_id) w1))))"

text \<open>The branch \<^verbatim>\<open>op["type"] == "update"\<close>.\<close>

definition replay_update :: "env \<Rightarrow> string \<Rightarrow> json \<Rightarrow> world \<Rightarrow> outcome" where
  "replay_update e device_id op w =
     (case py_index op ''record_id'' of
        Inl x \<Rightarrow> (Inl x, w)
      | Inr rid \<Rightarrow>
          (case first_by_id rid (db w) of
             None \<Rightarrow> (Inr JNull, w)
           | Some record \<Rightarrow>
               (case py_index op ''data'' of
                  Inl x \<Rightarrow> (Inl x, w)
                | Inr d \<Rightarrow>
                    (case py_get d ''title'' (title record) of
                       Inl x \<Rightarrow> (Inl x, w)
                     | Inr t \<Rightarrow>
                         (case py_get d ''value'' (value' record) of
                            Inl x \<Rightarrow> (Inl x, w)
                          | Inr v \<Rightarrow>
                              (let record1 = record
                                     \<lparr>title := t,
                                      value' := v,
                                      version := version record + 1,
                                      updated_at := utcnow e (clock_reads w)\<rparr>
                               in broadcast e
                                    (JObj [(''type'', JStr ''data_updated''),
                                           (''data'', JObj [(''id'', JStr (record_id record1)),
                                                            (''title'', title record1),
                                                            (''value'', value' record1),
                                                            (''version'', JInt (version record1))])])
                                    (Some device_id)
                                    (w\<lparr>db := commit_record record1 (db w),
                                       clock_reads := Suc (clock_reads w)\<rparr>)))))))"

text \<open>The branch \<^verbatim>\<open>op["type"] == "delete"\<close>.\<close>

definition replay_delete :: "env \<Rightarrow> string \<Rightarrow> json \<Rightarrow> world \<Rightarrow> outcome" where
  "replay_delete e device_id op w =
     (case py_index op ''record_id'' of
        Inl x \<Rightarrow> (Inl x, w)
      | Inr rid \<Rightarrow>
          (case first_by_id rid (db w) of
             None \<Rightarrow> (Inr JNull, w)
           | Some record \<Rightarrow>
               broadcast e
                 (JObj [(''type'', JStr ''data_deleted''), (''record_id'', rid)])
                 (Some device_id)
                 (w\<lparr>db := delete_commit record (db w)\<rparr>)))"

text \<open>The body of \<^verbatim>\<open>for op in operations\<close>.\<close>

definition replay_op :: "env \<Rightarrow> string \<Rightarrow> json \<Rightarrow> world \<Rightarrow> outcome" where
  "replay_op e device_id op w =
     (case py_index op ''type'' of
        Inl x \<Rightarrow> (Inl x, w)
      | Inr ty \<Rightarrow>
          (if ty = JStr ''create'' then replay_create e device_id op w
           else if ty = JStr ''update'' then replay_update e device_id op w
           else if ty = JStr ''delete'' then replay_delete e device_id op w
           else (Inr JNull, w)))"

text \<open>The loop: an exception raised by one operation leaves the loop, and the operations
  before it stay applied.\<close>

fun replay :: "env \<Rightarrow> string \<Rightarrow> json list \<Rightarrow> world \<Rightarrow> outcome" where
  "replay e device_id [] w = (Inr JNull, w)"
| "replay e device_id (op # ops) w =
     (case replay_op e device_id op w of
        (Inl x, w1) \<Rightarrow> (Inl x, w1)
      | (Inr _, w1) \<Rightarrow> replay e device_id ops w1)"

definition sync_offline_queue :: "env \<Rightarrow> string \<Rightarrow> (string \<times> json) list \<Rightarrow> world \<Rightarrow> outcome" where
  "sync_offline_queue e device_id data w =
     (case py_iter (dict_get data ''operations'' (JArr [])) of
        Inl x \<Rightarrow> (Inl x, w)
      | Inr operations \<Rightarrow> replay e device_id operations w)"

subsection \<open>The other messages\<close>

definition register_device :: "string \<Rightarrow> (string \<times> json) list \<Rightarrow> world \<Rightarrow> outcome" where
  "register_device device_id data w =
     (case map_of (device_registry w) device_id of
        None \<Rightarrow> (Inl KeyError, w)
      | Some info \<Rightarrow>
          (Inr JNull,
           w\<lparr>device_registry :=
                AList.update device_id (info\<lparr>type' := dict_get data ''device_type'' JNull\<rparr>)
                  (device_registry w)\<rparr>))"

definition record_json :: "data_record \<Rightarrow> json" where
  "record_json r =
     JObj [(''id'', JStr (record_id r)),
           (''title'', title r),
           (''value'', value' r),
           (''computed_result'', computed_result r),
           (''version'', JInt (version r)),
           (''updated_at'', JIso (updated_at r))]"

definition sync_request :: "env \<Rightarrow> string \<Rightarrow> world \<Rightarrow> outcome" where
  "sync_request e device_id w =
     send_personal_message e device_id
       (JObj [(''type'', JStr ''sync_response''),
              (''records'', JArr (map record_json (db w))),
              (''server_time'', JIso (utcnow e (clock_reads w)))])
       (w\<lparr>clock_reads := Suc (clock_reads w)\<rparr>)"

definition compute_request :: "env \<Rightarrow> string \<Rightarrow> (string \<times> json) list \<Rightarrow> world \<Rightarrow> outcome" where
  "compute_request e device_id data w =
     (let rid = dict_get data ''record_id'' JNull
      in case first_by_id rid (db w) of
           None \<Rightarrow> (Inr JNull, w)
         | Some record \<Rightarrow>
             (case py_abs (value' record) of
                Inl x \<Rightarrow> (Inl x, w)
              | Inr a \<Rightarrow>
                  (let record1 = record
                         \<lparr>computed_result := JNum (sqrt a * 100),
                          version := version record + 1,
                          updated_at := utcnow e (clock_reads w)\<rparr>
                   in broadcast e
                        (JObj [(''type'', JStr ''compute_result''),
                               (''record_id'', rid),
                               (''result'', computed_result record1),
                               (''version'', JInt (version record1)),
                               (''timestamp'', JIso (updated_at record1))])
                        (Some device_id)
                        (w\<lparr>db := commit_record record1 (db w),
                           clock_reads := Suc (clock_reads w)\<rparr>))))"

subsection \<open>The session\<close>

text \<open>One turn of \<^verbatim>\<open>while True\<close>, after \<^verbatim>\<open>receive_json()\<close> returned \<open>data\<close>.\<close>

definition handle_message :: "env \<Rightarrow> string \<Rightarrow> json \<Rightarrow> world \<Rightarrow> outcome" where
  "handle_message e device_id data w =
     (case data of
        JObj d \<Rightarrow>
          (let msg_type = dict_get d ''type'' JNull
           in if msg_type = JStr ''register_device'' then register_device device_id d w
              else if msg_type = JStr ''sync_request'' then sync_request e device_id w
              else if msg_type = JStr ''sync_offline_queue'' then sync_offline_queue e device_id d w
              else if msg_type = JStr ''compute_request'' then compute_request e device_id d w
              else (Inr JNull, w))
      | _ \<Rightarrow> (Inl AttributeError, w))"

text \<open>The loop over the messages the device sends before its connection closes or breaks;
  then \<^verbatim>\<open>receive_json()\<close> raises. The loop has no other exit.\<close>

fun receive_loop :: "env \<Rightarrow> string \<Rightarrow> json list \<Rightarrow> world \<Rightarrow> exn \<times> world" where
  "receive_loop e device_id [] w = (WebSocketDisconnect, w)"
| "receive_loop e device_id (data # later) w =
     (case handle_message e device_id data w of
        (Inl x, w1) \<Rightarrow> (x, w1)
      | (Inr _, w1) \<Rightarrow> receive_loop e device_id later w1)"

text \<open>\<^verbatim>\<open>connect\<close> is called before the \<^verbatim>\<open>try\<close>. Every exception of the loop is caught and
  printed; \<^verbatim>\<open>finally\<close> calls \<^verbatim>\<open>manager.disconnect(device_id)\<close> and nothing else that touches
  the shared state.\<close>

definition websocket_endpoint :: "env \<Rightarrow> websocket \<Rightarrow> string \<Rightarrow> json list \<Rightarrow> world \<Rightarrow> outcome" where
  "websocket_endpoint e websocket device_id incoming w =
     (case connect e websocket device_id w of
        (Inl x, w1) \<Rightarrow> (Inl x, w1)
      | (Inr _, w1) \<Rightarrow> disconnect device_id (snd (receive_loop e device_id incoming w1)))"

section \<open>Notions used in the statements\<close>

text \<open>The two dicts of the manager have the same keys.\<close>

definition manager_inv :: "world \<Rightarrow> bool" where
  "manager_inv w \<longleftrightarrow>
     set (map fst (active_connections w)) = set (map fst (device_registry w))"

text \<open>The calls of \<^verbatim>\<open>send_json\<close> that one sweep over \<open>conns\<close> makes when \<open>n\<close> calls were made
  before it, and the devices among them whose call raised.\<close>

fun sweep_log :: "env \<Rightarrow> json \<Rightarrow> string option \<Rightarrow> (string \<times> websocket) list \<Rightarrow> nat
    \<Rightarrow> (string \<times> websocket \<times> json \<times> bool) list" where
  "sweep_log e message exclude_device [] n = []"
| "sweep_log e message exclude_device ((device_id, connection) # rest) n =
     (if is_excluded exclude_device device_id then sweep_log e message exclude_device rest n
      else (device_id, connection, message, \<not> send_raises e n)
             # sweep_log e message exclude_device rest (Suc n))"

definition failed_ids :: "(string \<times> websocket \<times> json \<times> bool) list \<Rightarrow> string list" where
  "failed_ids sends = map fst (filter (\<lambda>s. \<not> snd (snd (snd s))) sends)"

text \<open>The row with primary key \<open>rid\<close>, if the table has one.\<close>

definition record_in :: "string \<Rightarrow> world \<Rightarrow> data_record option" where
  "record_in rid w = first_by_id (JStr rid) (db w)"






section \<open>Sample inputs\<close>

text \<open>A clock that advances by one at every reading, identifiers \<open>r\<close>, \<open>rr\<close>, \<open>rrr\<close>, ...,
  sockets that accept and deliver; the same with a first \<^verbatim>\<open>send_json\<close> that raises.\<close>

definition env0 :: env where
  "env0 = \<lparr>utcnow = (\<lambda>n. int n), uuid4 = (\<lambda>n. replicate (Suc n) CHR ''r''),
           send_raises = (\<lambda>n. False), accept_raises = (\<lambda>c. False)\<rparr>"

definition env_fail :: env where
  "env_fail = \<lparr>utcnow = (\<lambda>n. int n), uuid4 = (\<lambda>n. replicate (Suc n) CHR ''r''),
               send_raises = (\<lambda>n. n = 0), accept_raises = (\<lambda>c. False)\<rparr>"

text \<open>The server after start, and the server with three devices connected.\<close>

definition world0 :: world where
  "world0 = \<lparr>db = [], active_connections = [], device_registry = [], outbox = [],
             clock_reads = 0, uuid_reads = 0, send_calls = 0\<rparr>"

definition world3 :: world where
  "world3 =
     \<lparr>db = [],
      active_connections = [(''a'', 1), (''b'', 2), (''c'', 3)],
      device_registry =
        [(''a'', \<lparr>type' = JStr ''unknown'', connected_at = 0, last_sync = JNull\<rparr>),
         (''b'', \<lparr>type' = JStr ''unknown'', connected_at = 1, last_sync = JNull\<rparr>),
         (''c'', \<lparr>type' = JStr ''unknown'', connected_at = 2, last_sync = JNull\<rparr>)],
      outbox = [], clock_reads = 3, uuid_reads = 0, send_calls = 0\<rparr>"

text \<open>The server with three devices connected and one record, of version 2.\<close>

definition record_r :: data_record where
  "record_r =
     \<lparr>record_id = ''r'', title = JStr ''t'', value' = JNum (- 25), computed_result = JNull,
      created_at = 0, updated_at = 1, version = 2\<rparr>"

definition world_r :: world where
  "world_r =
     \<lparr>db = [record_r],
      active_connections = [(''a'', 1), (''b'', 2), (''c'', 3)],
      device_registry =
        [(''a'', \<lparr>type' = JStr ''unknown'', connected_at = 2, last_sync = JNull\<rparr>),
         (''b'', \<lparr>type' = JStr ''unknown'', connected_at = 3, last_sync = JNull\<rparr>),
         (''c'', \<lparr>type' = JStr ''unknown'', connected_at = 4, last_sync = JNull\<rparr>)],
      outbox = [], clock_reads = 5, uuid_reads = 1, send_calls = 0\<rparr>"

section \<open>The connection manager: auxiliary facts\<close>

lemma disconnect_inv_eq:
  assumes "manager_inv w"
  shows "disconnect d w =
     (Inr JNull, w\<lparr>active_connections := AList.delete d (active_connections w),
                   device_registry := AList.delete d (device_registry w)\<rparr>)"
proof (cases "map_of (active_connections w) d")
  case None
  then have "d \<notin> fst ` set (active_connections w)" by (simp add: map_of_eq_None_iff)
  moreover from this assms have "d \<notin> fst ` set (device_registry w)" by (simp add: manager_inv_def)
  ultimately show ?thesis using None by (simp add: disconnect_def)
next
  case (Some c)
  then have "d \<in> fst ` set (active_connections w)" by (metis map_of_eq_None_iff option.distinct(1))
  with assms have "d \<in> fst ` set (device_registry w)" by (simp add: manager_inv_def)
  then obtain i where "map_of (device_registry w) d = Some i"
    by (metis map_of_eq_None_iff not_Some_eq)
  then show ?thesis using Some by (simp add: disconnect_def)
qed

lemma sweep_eq:
  "sweep e msg ex conns dis w =
     (dis @ failed_ids (sweep_log e msg ex conns (send_calls w)),
      w\<lparr>outbox := outbox w @ sweep_log e msg ex conns (send_calls w),
        send_calls := send_calls w + length (sweep_log e msg ex conns (send_calls w))\<rparr>)"
proof (induction conns arbitrary: dis w)
  case Nil
  then show ?case by (simp add: failed_ids_def)
next
  case (Cons kv conns)
  obtain d c where kv: "kv = (d, c)" by (cases kv)
  show ?case unfolding kv
    by (simp add: Cons.IH send_json_def failed_ids_def)
qed


lemma manager_inv_delete:
  "manager_inv w \<Longrightarrow>
   manager_inv (w\<lparr>active_connections := AList.delete d (active_connections w),
                  device_registry := AList.delete d (device_registry w)\<rparr>)"
  by (simp add: manager_inv_def delete_keys)

lemma manager_inv_filter:
  "manager_inv w \<Longrightarrow>
   manager_inv (w\<lparr>active_connections := filter (\<lambda>kv. fst kv \<notin> D) (active_connections w),
                  device_registry := filter (\<lambda>kv. fst kv \<notin> D) (device_registry w)\<rparr>)"
proof -
  have k: "\<And>xs :: (string \<times> 'a) list. fst ` {x \<in> set xs. fst x \<notin> D} = fst ` set xs - D"
    by force
  assume "manager_inv w"
  then show ?thesis by (simp add: manager_inv_def k)
qed

lemma delete_filter: "AList.delete d xs = filter (\<lambda>kv. fst kv \<noteq> d) xs"
  by (induction xs) auto

lemma prune_eq:
  "manager_inv w \<Longrightarrow>
   prune ds w =
     (Inr JNull,
      w\<lparr>active_connections := filter (\<lambda>kv. fst kv \<notin> set ds) (active_connections w),
        device_registry := filter (\<lambda>kv. fst kv \<notin> set ds) (device_registry w)\<rparr>)"
proof (induction ds arbitrary: w)
  case Nil
  then show ?case by simp
next
  case (Cons d ds)
  let ?w1 = "w\<lparr>active_connections := AList.delete d (active_connections w),
                device_registry := AList.delete d (device_registry w)\<rparr>"
  have inv1: "manager_inv ?w1" using Cons.prems by (rule manager_inv_delete)
  have "prune (d # ds) w = prune ds ?w1"
    by (simp add: disconnect_inv_eq [OF Cons.prems])
  also have "\<dots> = (Inr JNull,
      ?w1\<lparr>active_connections := filter (\<lambda>kv. fst kv \<notin> set ds) (active_connections ?w1),
          device_registry := filter (\<lambda>kv. fst kv \<notin> set ds) (device_registry ?w1)\<rparr>)"
    by (rule Cons.IH [OF inv1])
  finally show ?case by (simp add: delete_filter conj_commute)
qed

lemma manager_inv_log:
  "manager_inv (w\<lparr>outbox := ob, send_calls := n\<rparr>) = manager_inv w"
  by (simp add: manager_inv_def)

lemma broadcast_eq:
  assumes "manager_inv w"
  shows "broadcast e msg ex w =
     (Inr JNull,
      w\<lparr>outbox := outbox w @ sweep_log e msg ex (active_connections w) (send_calls w),
        send_calls := send_calls w + length (sweep_log e msg ex (active_connections w) (send_calls w)),
        active_connections :=
          filter (\<lambda>kv. fst kv \<notin> set (failed_ids (sweep_log e msg ex (active_connections w) (send_calls w))))
            (active_connections w),
        device_registry :=
          filter (\<lambda>kv. fst kv \<notin> set (failed_ids (sweep_log e msg ex (active_connections w) (send_calls w))))
            (device_registry w)\<rparr>)"
proof -
  let ?new = "sweep_log e msg ex (active_connections w) (send_calls w)"
  let ?w1 = "w\<lparr>outbox := outbox w @ ?new, send_calls := send_calls w + length ?new\<rparr>"
  have inv1: "manager_inv ?w1" using assms by (simp add: manager_inv_log)
  show ?thesis
    by (simp add: broadcast_def sweep_eq prune_eq [OF inv1])
qed



lemma disconnect_frame:
  "db (snd (disconnect d w)) = db w"
  "outbox (snd (disconnect d w)) = outbox w"
  "clock_reads (snd (disconnect d w)) = clock_reads w"
  "uuid_reads (snd (disconnect d w)) = uuid_reads w"
  "send_calls (snd (disconnect d w)) = send_calls w"
  by (simp_all add: disconnect_def Let_def split: option.splits)

lemma prune_frame:
  "db (snd (prune ds w)) = db w \<and>
   outbox (snd (prune ds w)) = outbox w \<and>
   clock_reads (snd (prune ds w)) = clock_reads w \<and>
   uuid_reads (snd (prune ds w)) = uuid_reads w \<and>
   send_calls (snd (prune ds w)) = send_calls w"
proof (induction ds arbitrary: w)
  case Nil
  then show ?case by simp
next
  case (Cons d ds)
  obtain r w1 where dw: "disconnect d w = (r, w1)" by (cases "disconnect d w")
  have fr: "db w1 = db w" "outbox w1 = outbox w" "clock_reads w1 = clock_reads w"
    "uuid_reads w1 = uuid_reads w" "send_calls w1 = send_calls w"
    using disconnect_frame [of d w] by (simp_all add: dw)
  show ?case
  proof (cases r)
    case (Inl x)
    then show ?thesis by (simp add: dw fr)
  next
    case (Inr v)
    then show ?thesis using Cons.IH [of w1] by (simp add: dw fr)
  qed
qed

lemma broadcast_snd:
  "snd (broadcast e msg ex w) =
     snd (prune (failed_ids (sweep_log e msg ex (active_connections w) (send_calls w)))
       (w\<lparr>outbox := outbox w @ sweep_log e msg ex (active_connections w) (send_calls w),
          send_calls := send_calls w + length (sweep_log e msg ex (active_connections w) (send_calls w))\<rparr>))"
  by (simp add: broadcast_def sweep_eq split: prod.splits sum.splits)

lemma broadcast_frame:
  "db (snd (broadcast e msg ex w)) = db w"
  "clock_reads (snd (broadcast e msg ex w)) = clock_reads w"
  "uuid_reads (snd (broadcast e msg ex w)) = uuid_reads w"
  "outbox (snd (broadcast e msg ex w)) =
     outbox w @ sweep_log e msg ex (active_connections w) (send_calls w)"
  by (simp_all add: broadcast_snd prune_frame)

lemma manager_inv_cong:
  "active_connections w' = active_connections w \<Longrightarrow> device_registry w' = device_registry w
   \<Longrightarrow> manager_inv w' = manager_inv w"
  by (simp add: manager_inv_def)

lemma broadcast_ok:
  assumes "manager_inv w"
  shows "fst (broadcast e msg ex w) = Inr JNull" and "manager_inv (snd (broadcast e msg ex w))"
proof -
  show "fst (broadcast e msg ex w) = Inr JNull" by (simp add: broadcast_eq [OF assms])
  have "manager_inv
     (w\<lparr>active_connections :=
          filter (\<lambda>kv. fst kv \<notin> set (failed_ids (sweep_log e msg ex (active_connections w) (send_calls w))))
            (active_connections w),
        device_registry :=
          filter (\<lambda>kv. fst kv \<notin> set (failed_ids (sweep_log e msg ex (active_connections w) (send_calls w))))
            (device_registry w)\<rparr>)"
    using assms by (rule manager_inv_filter)
  then show "manager_inv (snd (broadcast e msg ex w))"
    by (simp add: broadcast_eq [OF assms] manager_inv_def)
qed

lemma disconnect_ok:
  assumes "manager_inv w"
  shows "fst (disconnect d w) = Inr JNull" and "manager_inv (snd (disconnect d w))"
  using manager_inv_delete [OF assms, of d] by (simp_all add: disconnect_inv_eq [OF assms])

lemma broadcast_status_ok:
  assumes "manager_inv w"
  shows "fst (broadcast_status e w) = Inr JNull" and "manager_inv (snd (broadcast_status e w))"
proof -
  have "manager_inv (w\<lparr>clock_reads := Suc (clock_reads w)\<rparr>)"
    using assms by (simp add: manager_inv_def)
  then show "fst (broadcast_status e w) = Inr JNull" "manager_inv (snd (broadcast_status e w))"
    unfolding broadcast_status_def by (rule broadcast_ok)+
qed

lemma update_key_set: "fst ` set (AList.update k v al) = insert k (fst ` set al)"
  by (induction al) auto

lemma connect_ok:
  assumes "manager_inv w"
  shows "manager_inv (snd (connect e ws d w))"
    and "\<not> accept_raises e ws \<Longrightarrow> fst (connect e ws d w) = Inr JNull"
proof -
  let ?w1 = "w\<lparr>active_connections := AList.update d ws (active_connections w),
                device_registry :=
                  AList.update d
                    \<lparr>type' = JStr ''unknown'', connected_at = utcnow e (clock_reads w),
                     last_sync = JNull\<rparr>
                    (device_registry w),
                clock_reads := Suc (clock_reads w)\<rparr>"
  have inv1: "manager_inv ?w1" using assms by (simp add: manager_inv_def update_key_set)
  show "manager_inv (snd (connect e ws d w))"
    using assms broadcast_status_ok(2) [OF inv1] by (simp add: connect_def)
  show "\<not> accept_raises e ws \<Longrightarrow> fst (connect e ws d w) = Inr JNull"
    using broadcast_status_ok(1) [OF inv1] by (simp add: connect_def)
qed

lemma send_json_inv: "manager_inv (send_json e d c msg w) = manager_inv w"
  by (simp add: send_json_def manager_inv_def)

lemma send_personal_message_ok:
  assumes "manager_inv w"
  shows "fst (send_personal_message e d msg w) = Inr JNull"
    and "manager_inv (snd (send_personal_message e d msg w))"
  using assms
  by (simp_all add: send_personal_message_def send_json_inv disconnect_ok split: option.splits)


section \<open>The table of records: auxiliary facts\<close>

lemma find_commit_same:
  "find (\<lambda>x. record_id x = k) rows = Some r \<Longrightarrow> record_id r1 = k \<Longrightarrow>
   find (\<lambda>x. record_id x = k) (commit_record r1 rows) = Some r1"
  by (induction rows) (auto simp add: commit_record_def split: if_splits)

lemma find_record_id: "find (\<lambda>x. record_id x = k) rows = Some r \<Longrightarrow> record_id r = k"
  by (induction rows) (auto split: if_splits)

lemma record_in_id: "record_in rid w = Some r \<Longrightarrow> record_id r = rid"
  unfolding record_in_def first_by_id_def by (simp, erule find_record_id)

lemma record_in_commit:
  "record_in rid w = Some r \<Longrightarrow> record_id r1 = rid \<Longrightarrow> db w' = commit_record r1 (db w) \<Longrightarrow>
   record_in rid w' = Some r1"
proof -
  assume a: "record_in rid w = Some r" "record_id r1 = rid" "db w' = commit_record r1 (db w)"
  from a(1) have "find (\<lambda>x. record_id x = rid) (db w) = Some r"
    by (simp add: record_in_def first_by_id_def)
  then have "find (\<lambda>x. record_id x = rid) (commit_record r1 (db w)) = Some r1"
    using a(2) by (rule find_commit_same)
  then show ?thesis by (simp add: record_in_def first_by_id_def a(3))
qed

lemma find_commit_other:
  "record_id r1 \<noteq> k \<Longrightarrow>
   find (\<lambda>x. record_id x = k) (commit_record r1 rows) = find (\<lambda>x. record_id x = k) rows"
  by (induction rows) (auto simp add: commit_record_def)

lemma snd_outcome_case:
  "snd (case p of (Inl x, w2) \<Rightarrow> (g x, w2) | (Inr y, w2) \<Rightarrow> (h y, w2)) = snd p"
  by (cases p; cases "fst p") auto

lemma fst_outcome_case:
  "fst (case p of (Inl x, w2) \<Rightarrow> (g x, w2) | (Inr y, w2) \<Rightarrow> (h y, w2)) =
     (case fst p of Inl x \<Rightarrow> g x | Inr y \<Rightarrow> h y)"
  by (cases p; cases "fst p") auto

lemma update_data_applied:
  assumes "first_by_id (JStr rid) (db w) = Some r"
    and "py_eq_int (dict_get payload ''version'' (JNum 0)) 0 \<or>
         py_eq_int (dict_get payload ''version'' (JNum 0)) (version r)"
  shows "db (snd (update_data e rid payload w)) =
           commit_record
             (r\<lparr>title := dict_get payload ''title'' (title r),
                value' := dict_get payload ''value'' (value' r),
                computed_result := dict_get payload ''computed_result'' (computed_result r),
                version := version r + 1,
                updated_at := utcnow e (clock_reads w)\<rparr>) (db w)"
    and "clock_reads (snd (update_data e rid payload w)) = Suc (clock_reads w)"
proof -
  have ns: "\<not> (\<not> py_eq_int (dict_get payload ''version'' (JNum 0)) 0 \<and>
               \<not> py_eq_int (dict_get payload ''version'' (JNum 0)) (version r))"
    using assms(2) by blast
  have eq: "snd (update_data e rid payload w) =
      snd (broadcast e
             (JObj [(''type'', JStr ''data_updated''),
                    (''data'', JObj [(''id'', JStr (record_id r)),
                                     (''title'', dict_get payload ''title'' (title r)),
                                     (''value'', dict_get payload ''value'' (value' r)),
                                     (''computed_result'',
                                      dict_get payload ''computed_result'' (computed_result r)),
                                     (''version'', JInt (version r + 1))]),
                    (''timestamp'', JIso (utcnow e (clock_reads w)))])
             None
             (w\<lparr>db := commit_record
                    (r\<lparr>title := dict_get payload ''title'' (title r),
                       value' := dict_get payload ''value'' (value' r),
                       computed_result := dict_get payload ''computed_result'' (computed_result r),
                       version := version r + 1,
                       updated_at := utcnow e (clock_reads w)\<rparr>) (db w),
                clock_reads := Suc (clock_reads w)\<rparr>))"
    unfolding update_data_def assms(1) option.case Let_def if_not_P [OF ns] snd_outcome_case
    by simp
  show "db (snd (update_data e rid payload w)) =
           commit_record
             (r\<lparr>title := dict_get payload ''title'' (title r),
                value' := dict_get payload ''value'' (value' r),
                computed_result := dict_get payload ''computed_result'' (computed_result r),
                version := version r + 1,
                updated_at := utcnow e (clock_reads w)\<rparr>) (db w)"
    unfolding eq by (simp add: broadcast_frame)
  show "clock_reads (snd (update_data e rid payload w)) = Suc (clock_reads w)"
    unfolding eq by (simp add: broadcast_frame)
qed

lemma update_data_stale:
  assumes "first_by_id (JStr rid) (db w) = Some r"
    and "\<not> py_eq_int (dict_get payload ''version'' (JNum 0)) 0"
    and "\<not> py_eq_int (dict_get payload ''version'' (JNum 0)) (version r)"
  shows "update_data e rid payload w =
           (Inr (JObj [(''error'', JStr ''version_conflict''),
                       (''current_version'', JInt (version r)),
                       (''status'', JStr ''conflict'')]), w)"
  using assms by (simp add: update_data_def)

section \<open>The handlers: auxiliary facts\<close>

lemma replay_update_applied:
  assumes "py_index op ''record_id'' = Inr rid"
    and "first_by_id rid (db w) = Some r"
    and "py_index op ''data'' = Inr (JObj dd)"
  shows "replay_update e d op w =
     broadcast e
       (JObj [(''type'', JStr ''data_updated''),
              (''data'', JObj [(''id'', JStr (record_id r)),
                               (''title'', dict_get dd ''title'' (title r)),
                               (''value'', dict_get dd ''value'' (value' r)),
                               (''version'', JInt (version r + 1))])])
       (Some d)
       (w\<lparr>db := commit_record
              (r\<lparr>title := dict_get dd ''title'' (title r),
                 value' := dict_get dd ''value'' (value' r),
                 version := version r + 1,
                 updated_at := utcnow e (clock_reads w)\<rparr>) (db w),
          clock_reads := Suc (clock_reads w)\<rparr>)"
  by (simp add: replay_update_def assms py_get_def Let_def)

lemma replay_update_skip:
  assumes "py_index op ''record_id'' = Inr rid" and "first_by_id rid (db w) = None"
  shows "replay_update e d op w = (Inr JNull, w)"
  by (simp add: replay_update_def assms)

lemma replay_delete_skip:
  assumes "py_index op ''record_id'' = Inr rid" and "first_by_id rid (db w) = None"
  shows "replay_delete e d op w = (Inr JNull, w)"
  by (simp add: replay_delete_def assms)

lemma replay_op_update:
  "py_index op ''type'' = Inr (JStr ''update'') \<Longrightarrow> replay_op e d op w = replay_update e d op w"
  by (simp add: replay_op_def)

lemma replay_op_delete:
  "py_index op ''type'' = Inr (JStr ''delete'') \<Longrightarrow> replay_op e d op w = replay_delete e d op w"
  by (simp add: replay_op_def)






lemma handle_sync_offline_queue:
  "dict_get data ''type'' JNull = JStr ''sync_offline_queue'' \<Longrightarrow>
   handle_message e d (JObj data) w = sync_offline_queue e d data w"
  by (simp add: handle_message_def Let_def)

section \<open>The keys of the two dicts (claim C9)\<close>

text \<open>
  Claim C9. The set of device ids in \<open>active_connections\<close> equals the set of device ids in
  \<open>device_registry\<close>: it holds for the empty manager, and \<open>connect\<close>, \<open>disconnect\<close>,
  \<open>broadcast\<close> (with its pruning of the devices whose send failed) and
  \<open>send_personal_message\<close> (with its pruning on a failed send) each preserve it, whether
  they return or raise. A \<open>disconnect\<close> of a device id that is not registered returns
  without an exception and leaves the whole state as it was.
\<close>

theorem manager_keys_agree:
  "(active_connections w0 = [] \<and> device_registry w0 = [] \<longrightarrow> manager_inv w0) \<and>
   (manager_inv w \<longrightarrow>
      manager_inv (snd (connect e ws d w)) \<and>
      manager_inv (snd (disconnect d w)) \<and>
      manager_inv (snd (broadcast e msg ex w)) \<and>
      manager_inv (snd (send_personal_message e d msg w))) \<and>
   (map_of (active_connections w) d = None \<longrightarrow> disconnect d w = (Inr JNull, w))"
proof (intro conjI impI)
  assume "active_connections w0 = [] \<and> device_registry w0 = []"
  then show "manager_inv w0" by (simp add: manager_inv_def)
next
  assume "manager_inv w"
  then show "manager_inv (snd (connect e ws d w))" by (rule connect_ok(1))
next
  assume "manager_inv w"
  then show "manager_inv (snd (disconnect d w))" by (rule disconnect_ok(2))
next
  assume "manager_inv w"
  then show "manager_inv (snd (broadcast e msg ex w))" by (rule broadcast_ok(2))
next
  assume "manager_inv w"
  then show "manager_inv (snd (send_personal_message e d msg w))"
    by (rule send_personal_message_ok(2))
next
  assume "map_of (active_connections w) d = None"
  then show "disconnect d w = (Inr JNull, w)" by (simp add: disconnect_def)
qed

text \<open>The statement at a manager with three devices, a fourth id \<open>d\<close> that is not
  registered, and a first send that fails.\<close>

theorem manager_keys_agree_witness:
  "active_connections world0 = [] \<and> device_registry world0 = [] \<and> manager_inv world0 \<and>
   manager_inv world3 \<and>
   manager_inv (snd (connect env_fail 4 ''d'' world3)) \<and>
   manager_inv (snd (disconnect ''d'' world3)) \<and>
   manager_inv (snd (broadcast env_fail JNull (Some ''b'') world3)) \<and>
   manager_inv (snd (send_personal_message env_fail ''d'' JNull world3)) \<and>
   map_of (active_connections world3) ''d'' = None \<and>
   disconnect ''d'' world3 = (Inr JNull, world3)"
proof -
  have h0: "active_connections world0 = [] \<and> device_registry world0 = []"
    by (simp add: world0_def)
  have h1: "manager_inv world3" by (simp add: manager_inv_def world3_def)
  have h2: "map_of (active_connections world3) ''d'' = None" by (simp add: world3_def)
  show ?thesis
    using manager_keys_agree [of world0 world3 env_fail 4 "''d''" JNull "Some ''b''"] h0 h1 h2
    by simp
qed

section \<open>Broadcast (claim C3)\<close>





lemma py_eq_int_JInt: "py_eq_int (JInt v) n = (v = n)"
  by (simp add: py_eq_int_def JInt_def)

lemma update_data_fst_applied:
  assumes "first_by_id (JStr rid) (db w) = Some r"
    and "py_eq_int (dict_get payload ''version'' (JNum 0)) 0 \<or>
         py_eq_int (dict_get payload ''version'' (JNum 0)) (version r)"
  shows "(\<exists>x. fst (update_data e rid payload w) = Inl x) \<or>
         fst (update_data e rid payload w) =
           Inr (JObj [(''version'', JInt (version r + 1)), (''status'', JStr ''updated'')])"
proof -
  have ns: "\<not> (\<not> py_eq_int (dict_get payload ''version'' (JNum 0)) 0 \<and>
               \<not> py_eq_int (dict_get payload ''version'' (JNum 0)) (version r))"
    using assms(2) by blast
  show ?thesis
    unfolding update_data_def assms(1) option.case Let_def if_not_P [OF ns] fst_outcome_case
    by (simp split: sum.splits)
qed

section \<open>The conditional update (claim C2)\<close>

text \<open>
  Claim C2. The PUT handler on a record id that is not in the table raises the HTTP error
  404 and changes nothing. On an existing record it answers with the version-conflict
  document if and only if the expected version of the payload is not equal to 0 and not
  equal to the record's version (Python's \<^verbatim>\<open>!=\<close>; for an integer \<open>v\<close> in the payload: \<open>v \<noteq> 0\<close>
  and \<open>v\<close> differs from the version, and a payload without the key counts as 0). The
  conflict answer carries the record's current version, and the state after it is the
  state before it: no row, no dict of the manager and no counter has changed, and nothing
  was sent.
\<close>

theorem conditional_update_conflict:
  "(record_in rid w = None \<longrightarrow>
      update_data e rid payload w = (Inl (HTTPException 404 ''Not found''), w)) \<and>
   (\<forall>r. record_in rid w = Some r \<longrightarrow>
      ((\<exists>v. fst (update_data e rid payload w) =
              Inr (JObj [(''error'', JStr ''version_conflict''),
                         (''current_version'', v),
                         (''status'', JStr ''conflict'')]))
        \<longleftrightarrow> \<not> py_eq_int (dict_get payload ''version'' (JNum 0)) 0 \<and>
            \<not> py_eq_int (dict_get payload ''version'' (JNum 0)) (version r)) \<and>
      (\<not> py_eq_int (dict_get payload ''version'' (JNum 0)) 0 \<and>
       \<not> py_eq_int (dict_get payload ''version'' (JNum 0)) (version r) \<longrightarrow>
         update_data e rid payload w =
           (Inr (JObj [(''error'', JStr ''version_conflict''),
                       (''current_version'', JInt (version r)),
                       (''status'', JStr ''conflict'')]), w)) \<and>
      (\<forall>v. map_of payload ''version'' = Some (JInt v) \<longrightarrow>
         (\<not> py_eq_int (dict_get payload ''version'' (JNum 0)) 0 \<and>
          \<not> py_eq_int (dict_get payload ''version'' (JNum 0)) (version r))
           = (v \<noteq> 0 \<and> v \<noteq> version r)) \<and>
      (map_of payload ''version'' = None \<longrightarrow>
         py_eq_int (dict_get payload ''version'' (JNum 0)) 0))"
proof (intro conjI allI impI)
  assume "record_in rid w = None"
  then show "update_data e rid payload w = (Inl (HTTPException 404 ''Not found''), w)"
    by (simp add: update_data_def record_in_def)
next
  fix r assume r: "record_in rid w = Some r"
  then have f: "first_by_id (JStr rid) (db w) = Some r" by (simp add: record_in_def)
  let ?stale = "\<not> py_eq_int (dict_get payload ''version'' (JNum 0)) 0 \<and>
            \<not> py_eq_int (dict_get payload ''version'' (JNum 0)) (version r)"
  show "(\<exists>v. fst (update_data e rid payload w) =
              Inr (JObj [(''error'', JStr ''version_conflict''),
                         (''current_version'', v),
                         (''status'', JStr ''conflict'')])) \<longleftrightarrow> ?stale"
  proof
    assume c: "\<exists>v. fst (update_data e rid payload w) =
              Inr (JObj [(''error'', JStr ''version_conflict''),
                         (''current_version'', v),
                         (''status'', JStr ''conflict'')])"
    show ?stale
    proof (rule ccontr)
      assume "\<not> ?stale"
      then have "py_eq_int (dict_get payload ''version'' (JNum 0)) 0 \<or>
         py_eq_int (dict_get payload ''version'' (JNum 0)) (version r)" by blast
      from update_data_fst_applied [OF f this, of e] c show False by auto
    qed
  next
    assume ?stale
    then show "\<exists>v. fst (update_data e rid payload w) =
              Inr (JObj [(''error'', JStr ''version_conflict''),
                         (''current_version'', v),
                         (''status'', JStr ''conflict'')])"
      using update_data_stale [OF f, of payload e] by simp
  qed
next
  fix r assume r: "record_in rid w = Some r"
    and s: "\<not> py_eq_int (dict_get payload ''version'' (JNum 0)) 0 \<and>
       \<not> py_eq_int (dict_get payload ''version'' (JNum 0)) (version r)"
  from r have f: "first_by_id (JStr rid) (db w) = Some r" by (simp add: record_in_def)
  show "update_data e rid payload w =
           (Inr (JObj [(''error'', JStr ''version_conflict''),
                       (''current_version'', JInt (version r)),
                       (''status'', JStr ''conflict'')]), w)"
    using update_data_stale [OF f] s by simp
next
  fix r v assume "map_of payload ''version'' = Some (JInt v)"
  then show "(\<not> py_eq_int (dict_get payload ''version'' (JNum 0)) 0 \<and>
          \<not> py_eq_int (dict_get payload ''version'' (JNum 0)) (version r))
           = (v \<noteq> 0 \<and> v \<noteq> version r)"
    by (simp add: dict_get_def py_eq_int_JInt)
next
  assume "map_of payload ''version'' = None"
  then show "py_eq_int (dict_get payload ''version'' (JNum 0)) 0"
    by (simp add: dict_get_def py_eq_int_def)
qed


text \<open>A record of version 2: an unknown id, a payload with the stale version 1, and a
  payload without a version.\<close>

theorem conditional_update_conflict_witness:
  "record_in ''zz'' world_r = None \<and>
   update_data env0 ''zz'' [(''value'', JNum 30), (''version'', JInt 1)] world_r =
     (Inl (HTTPException 404 ''Not found''), world_r) \<and>
   record_in ''r'' world_r = Some record_r \<and>
   map_of [(''value'', JNum 30), (''version'', JInt 1)] ''version'' = Some (JInt 1) \<and>
   (1::int) \<noteq> 0 \<and> 1 \<noteq> version record_r \<and>
   update_data env0 ''r'' [(''value'', JNum 30), (''version'', JInt 1)] world_r =
     (Inr (JObj [(''error'', JStr ''version_conflict''),
                 (''current_version'', JInt 2),
                 (''status'', JStr ''conflict'')]), world_r) \<and>
   map_of ([] :: (string \<times> json) list) ''version'' = None \<and>
   py_eq_int (dict_get [] ''version'' (JNum 0)) 0"
proof -
  have h1: "record_in ''zz'' world_r = None"
    by (simp add: record_in_def first_by_id_def world_r_def record_r_def)
  have h2: "record_in ''r'' world_r = Some record_r"
    by (simp add: record_in_def first_by_id_def world_r_def record_r_def)
  have h3: "map_of [(''value'', JNum 30), (''version'', JInt 1)] ''version'' = Some (JInt 1)"
    by simp
  have h4: "version record_r = 2" by (simp add: record_r_def)
  have h5: "map_of ([] :: (string \<times> json) list) ''version'' = None" by simp
  show ?thesis
    using conditional_update_conflict
            [of "''zz''" world_r env0 "[(''value'', JNum 30), (''version'', JInt 1)]"]
          conditional_update_conflict
            [of "''r''" world_r env0 "[(''value'', JNum 30), (''version'', JInt 1)]"]
          conditional_update_conflict [of "''r''" world_r env0 "[]"]
          h1 h2 h3 h4 h5
    by simp
qed

section \<open>What an offline update changes (claim C10)\<close>

text \<open>
  Claim C10. An \<^verbatim>\<open>update\<close> operation of the offline queue on an existing record, with a dict
  as its data, rewrites the title and the value from the data (keeping them where the
  data has no such key), adds 1 to the version and stamps \<open>updated_at\<close>; the id, the creation
  time and \<open>computed_result\<close> of the row stay as they were, whatever the data holds under
  \<open>computed_result\<close>, and every other row of the table is unchanged. The PUT handler, on an
  update that is not refused, does take \<open>computed_result\<close> from its payload.
\<close>

theorem offline_update_frame:
  "(py_index op ''type'' = Inr (JStr ''update'') \<and>
    py_index op ''record_id'' = Inr (JStr rid) \<and>
    py_index op ''data'' = Inr (JObj dd) \<and>
    record_in rid w = Some r \<longrightarrow>
      (let r' = r\<lparr>title := dict_get dd ''title'' (title r),
                   value' := dict_get dd ''value'' (value' r),
                   version := version r + 1,
                   updated_at := utcnow e (clock_reads w)\<rparr>;
           w' = snd (replay_op e d op w)
       in db w' = map (\<lambda>x. if record_id x = rid then r' else x) (db w)
        \<and> record_in rid w' = Some r'
        \<and> computed_result r' = computed_result r
        \<and> record_id r' = record_id r
        \<and> created_at r' = created_at r)) \<and>
   (record_in rid w = Some r \<and>
    (py_eq_int (dict_get payload ''version'' (JNum 0)) 0 \<or>
     py_eq_int (dict_get payload ''version'' (JNum 0)) (version r)) \<longrightarrow>
      (\<exists>r'. record_in rid (snd (update_data e rid payload w)) = Some r' \<and>
            computed_result r' = dict_get payload ''computed_result'' (computed_result r)))"
proof (intro conjI impI)
  assume a: "py_index op ''type'' = Inr (JStr ''update'') \<and>
    py_index op ''record_id'' = Inr (JStr rid) \<and>
    py_index op ''data'' = Inr (JObj dd) \<and>
    record_in rid w = Some r"
  let ?r' = "r\<lparr>title := dict_get dd ''title'' (title r),
                   value' := dict_get dd ''value'' (value' r),
                   version := version r + 1,
                   updated_at := utcnow e (clock_reads w)\<rparr>"
  from a have f: "first_by_id (JStr rid) (db w) = Some r" by (simp add: record_in_def)
  have id: "record_id r = rid" using a record_in_id by blast
  have eq: "replay_op e d op w = replay_update e d op w"
    using a by (simp add: replay_op_update)
  have dbw: "db (snd (replay_op e d op w)) = commit_record ?r' (db w)"
    unfolding eq using a f by (simp add: replay_update_applied broadcast_frame)
  have rin: "record_in rid (snd (replay_op e d op w)) = Some ?r'"
    by (rule record_in_commit [where w = w and r = r]) (use a id dbw in simp_all)
  show "let r' = ?r'; w' = snd (replay_op e d op w)
       in db w' = map (\<lambda>x. if record_id x = rid then r' else x) (db w)
        \<and> record_in rid w' = Some r'
        \<and> computed_result r' = computed_result r
        \<and> record_id r' = record_id r
        \<and> created_at r' = created_at r"
    unfolding Let_def using dbw rin id by (simp add: commit_record_def)
next
  assume a: "record_in rid w = Some r \<and>
    (py_eq_int (dict_get payload ''version'' (JNum 0)) 0 \<or>
     py_eq_int (dict_get payload ''version'' (JNum 0)) (version r))"
  let ?r' = "r\<lparr>title := dict_get payload ''title'' (title r),
                value' := dict_get payload ''value'' (value' r),
                computed_result := dict_get payload ''computed_result'' (computed_result r),
                version := version r + 1,
                updated_at := utcnow e (clock_reads w)\<rparr>"
  from a have f: "first_by_id (JStr rid) (db w) = Some r" by (simp add: record_in_def)
  have id: "record_id r = rid" using a record_in_id by blast
  have dbw: "db (snd (update_data e rid payload w)) = commit_record ?r' (db w)"
    using update_data_applied(1) [OF f, of payload e] a by blast
  have "record_in rid (snd (update_data e rid payload w)) = Some ?r'"
    by (rule record_in_commit [where w = w and r = r]) (use a id dbw in simp_all)
  then show "\<exists>r'. record_in rid (snd (update_data e rid payload w)) = Some r' \<and>
            computed_result r' = dict_get payload ''computed_result'' (computed_result r)"
    by simp
qed


text \<open>Both updates with \<open>computed_result = 7\<close> in their data, on a record whose
  \<open>computed_result\<close> is NULL.\<close>

theorem offline_update_frame_witness:
  "py_index (JObj [(''type'', JStr ''update''), (''record_id'', JStr ''r''),
                   (''data'', JObj [(''title'', JStr ''n''), (''computed_result'', JNum 7)])])
     ''type'' = Inr (JStr ''update'') \<and>
   record_in ''r'' world_r = Some record_r \<and>
   py_eq_int (dict_get [(''computed_result'', JNum 7)] ''version'' (JNum 0)) 0 \<and>
   record_in ''r''
     (snd (replay_op env0 ''a''
        (JObj [(''type'', JStr ''update''), (''record_id'', JStr ''r''),
               (''data'', JObj [(''title'', JStr ''n''), (''computed_result'', JNum 7)])])
        world_r)) =
     Some (record_r\<lparr>title := JStr ''n'', version := 3, updated_at := 5\<rparr>) \<and>
   computed_result (record_r\<lparr>title := JStr ''n'', version := 3, updated_at := 5\<rparr>) = JNull \<and>
   (\<exists>r'. record_in ''r'' (snd (update_data env0 ''r'' [(''computed_result'', JNum 7)] world_r))
           = Some r' \<and> computed_result r' = JNum 7)"
proof -
  let ?op = "JObj [(''type'', JStr ''update''), (''record_id'', JStr ''r''),
                   (''data'', JObj [(''title'', JStr ''n''), (''computed_result'', JNum 7)])]"
  have h1: "py_index ?op ''type'' = Inr (JStr ''update'')" by (simp add: py_index_def)
  have h2: "py_index ?op ''record_id'' = Inr (JStr ''r'')" by (simp add: py_index_def)
  have h3: "py_index ?op ''data'' = Inr (JObj [(''title'', JStr ''n''), (''computed_result'', JNum 7)])"
    by (simp add: py_index_def)
  have h4: "record_in ''r'' world_r = Some record_r"
    by (simp add: record_in_def first_by_id_def world_r_def record_r_def)
  have h5: "py_eq_int (dict_get [(''computed_result'', JNum 7)] ''version'' (JNum 0)) 0"
    by (simp add: dict_get_def py_eq_int_def)
  have v: "version record_r = 2" "clock_reads world_r = 5" "utcnow env0 5 = 5"
    "computed_result record_r = JNull" "title record_r = JStr ''t''"
    "value' record_r = JNum (- 25)"
    by (simp_all add: record_r_def world_r_def env0_def)
  show ?thesis
    using offline_update_frame
            [where op = ?op and rid = "''r''" and w = world_r and r = record_r and e = env0
               and d = "''a''" and payload = "[(''computed_result'', JNum 7)]"
               and dd = "[(''title'', JStr ''n''), (''computed_result'', JNum 7)]"]
          h1 h2 h3 h4 h5
    by (simp add: Let_def dict_get_def v)
qed

section \<open>The compute request (claim C5)\<close>








section \<open>Mutations and creations: auxiliary facts\<close>




lemma find_append_new: "find P rows = None \<Longrightarrow> P r \<Longrightarrow> find P (rows @ [r]) = Some r"
  by (induction rows) (auto split: if_splits)

lemma find_append_old: "\<not> P r \<Longrightarrow> find P (rows @ [r]) = find P rows"
  by (induction rows) auto

lemma add_commit_fresh:
  assumes "find (\<lambda>x. record_id x = uuid4 e (uuid_reads w)) (db w) = None"
  shows "add_commit e t v w =
     (Inr (new_record e t v w),
      w\<lparr>uuid_reads := Suc (uuid_reads w), clock_reads := Suc (Suc (clock_reads w)),
        db := db w @ [new_record e t v w]\<rparr>)"
  using assms by (simp add: add_commit_def Let_def new_record_def)


lemma record_in_new:
  assumes "find (\<lambda>x. record_id x = uuid4 e (uuid_reads w)) (db w) = None"
    and "db w' = db w @ [new_record e t v w]"
  shows "record_in (uuid4 e (uuid_reads w)) w' = Some (new_record e t v w)"
proof -
  have "record_id (new_record e t v w) = uuid4 e (uuid_reads w)" by (simp add: new_record_def)
  with assms(1) have "find (\<lambda>x. record_id x = uuid4 e (uuid_reads w)) (db w @ [new_record e t v w])
      = Some (new_record e t v w)"
    by (intro find_append_new) simp_all
  then show ?thesis by (simp add: record_in_def first_by_id_def assms(2))
qed

lemma create_data_fresh:
  assumes "find (\<lambda>x. record_id x = uuid4 e (uuid_reads w)) (db w) = None"
  shows "db (snd (create_data e payload w)) =
           db w @ [new_record e (dict_get payload ''title'' JNull)
                     (dict_get payload ''value'' (JNum 0)) w]"
    and "clock_reads (snd (create_data e payload w)) = clock_reads w + 3"
    and "(\<exists>x. fst (create_data e payload w) = Inl x) \<or>
         fst (create_data e payload w) =
           Inr (JObj [(''id'', JStr (uuid4 e (uuid_reads w))), (''version'', JInt 1)])"
    and "manager_inv w \<Longrightarrow>
         fst (create_data e payload w) =
           Inr (JObj [(''id'', JStr (uuid4 e (uuid_reads w))), (''version'', JInt 1)])"
proof -
  show "db (snd (create_data e payload w)) =
           db w @ [new_record e (dict_get payload ''title'' JNull)
                     (dict_get payload ''value'' (JNum 0)) w]"
    unfolding create_data_def add_commit_fresh [OF assms]
    by (simp add: snd_outcome_case broadcast_frame)
  show "clock_reads (snd (create_data e payload w)) = clock_reads w + 3"
    unfolding create_data_def add_commit_fresh [OF assms]
    by (simp add: snd_outcome_case broadcast_frame)
  show "(\<exists>x. fst (create_data e payload w) = Inl x) \<or>
         fst (create_data e payload w) =
           Inr (JObj [(''id'', JStr (uuid4 e (uuid_reads w))), (''version'', JInt 1)])"
    unfolding create_data_def add_commit_fresh [OF assms]
    by (simp add: fst_outcome_case new_record_def split: sum.splits)
  assume inv: "manager_inv w"
  have "\<And>rows n m. manager_inv (w\<lparr>uuid_reads := m, clock_reads := n, db := rows\<rparr>)"
    using inv by (simp add: manager_inv_def)
  then show "fst (create_data e payload w) =
           Inr (JObj [(''id'', JStr (uuid4 e (uuid_reads w))), (''version'', JInt 1)])"
    unfolding create_data_def add_commit_fresh [OF assms]
    by (simp add: fst_outcome_case new_record_def broadcast_ok(1) manager_inv_def)
qed











section \<open>Versions and timestamps (claim C1)\<close>




section \<open>The handlers keep the two dicts in step\<close>

lemma manager_inv_frame:
  "manager_inv (w\<lparr>db := rows\<rparr>) = manager_inv w"
  "manager_inv (w\<lparr>clock_reads := n\<rparr>) = manager_inv w"
  "manager_inv (w\<lparr>uuid_reads := n\<rparr>) = manager_inv w"
  by (simp_all add: manager_inv_def)

lemma outcome_case_inv:
  "manager_inv (snd p) \<Longrightarrow>
   manager_inv (snd (case p of (Inl x, w2) \<Rightarrow> (g x, w2) | (Inr y, w2) \<Rightarrow> (h y, w2)))"
  by (simp add: snd_outcome_case)

lemma add_commit_inv: "manager_inv w \<Longrightarrow> manager_inv (snd (add_commit e t v w))"
  by (simp add: add_commit_def Let_def manager_inv_def split: option.splits)

lemma create_data_inv:
  assumes "manager_inv w"
  shows "manager_inv (snd (create_data e payload w))"
proof -
  obtain res w1 where acm: "add_commit e (dict_get payload ''title'' JNull)
      (dict_get payload ''value'' (JNum 0)) w = (res, w1)" by (metis surj_pair)
  have inv1: "manager_inv w1" using add_commit_inv [OF assms, of e] acm
    by (metis snd_conv)
  show ?thesis
  proof (cases res)
    case (Inl x)
    then show ?thesis by (simp add: create_data_def acm inv1)
  next
    case (Inr rec0)
    have "manager_inv (w1\<lparr>clock_reads := Suc (clock_reads w1)\<rparr>)"
      using inv1 by (simp add: manager_inv_frame)
    then show ?thesis
      by (simp add: create_data_def acm Inr snd_outcome_case broadcast_ok(2))
  qed
qed

lemma update_data_inv:
  assumes "manager_inv w"
  shows "manager_inv (snd (update_data e rid payload w))"
proof (cases "first_by_id (JStr rid) (db w)")
  case None
  then show ?thesis using assms by (simp add: update_data_def)
next
  case (Some r)
  have "\<And>rows n. manager_inv (w\<lparr>db := rows, clock_reads := n\<rparr>)"
    using assms by (simp add: manager_inv_def)
  then show ?thesis using assms
    by (simp add: update_data_def Some Let_def snd_outcome_case broadcast_ok(2))
qed

lemma update_data_ok:
  assumes "manager_inv w" and "first_by_id (JStr rid) (db w) = Some r"
    and "py_eq_int (dict_get payload ''version'' (JNum 0)) 0 \<or>
         py_eq_int (dict_get payload ''version'' (JNum 0)) (version r)"
  shows "fst (update_data e rid payload w) =
           Inr (JObj [(''version'', JInt (version r + 1)), (''status'', JStr ''updated'')])"
proof -
  have ns: "\<not> (\<not> py_eq_int (dict_get payload ''version'' (JNum 0)) 0 \<and>
               \<not> py_eq_int (dict_get payload ''version'' (JNum 0)) (version r))"
    using assms(3) by blast
  have inv1: "\<And>rows n. manager_inv (w\<lparr>db := rows, clock_reads := n\<rparr>)"
    using assms(1) by (simp add: manager_inv_def)
  show ?thesis
    unfolding update_data_def assms(2) option.case Let_def if_not_P [OF ns] fst_outcome_case
    by (simp add: broadcast_ok(1) [OF inv1])
qed

lemma delete_data_inv:
  assumes "manager_inv w"
  shows "manager_inv (snd (delete_data e rid w))"
proof (cases "first_by_id (JStr rid) (db w)")
  case None
  then show ?thesis using assms by (simp add: delete_data_def)
next
  case (Some r)
  have "\<And>rows n. manager_inv (w\<lparr>db := rows, clock_reads := n\<rparr>)"
    using assms by (simp add: manager_inv_def)
  then show ?thesis
    by (simp add: delete_data_def Some snd_outcome_case broadcast_ok(2))
qed

lemma replay_create_inv:
  assumes "manager_inv w"
  shows "manager_inv (snd (replay_create e d op w))"
proof -
  have "\<And>t v. manager_inv (snd (case add_commit e t v w of
            (Inl x, w1) \<Rightarrow> (Inl x, w1)
          | (Inr record, w1) \<Rightarrow>
              broadcast e
                (JObj [(''type'', JStr ''data_created''),
                       (''data'', JObj [(''id'', JStr (record_id record)),
                                        (''title'', title record),
                                        (''value'', value' record)])])
                (Some d) w1))"
  proof -
    fix t v
    obtain res w1 where acm: "add_commit e t v w = (res, w1)" by (metis surj_pair)
    have inv1: "manager_inv w1" using add_commit_inv [OF assms, of e t v] by (simp add: acm)
    show "manager_inv (snd (case add_commit e t v w of
            (Inl x, w1) \<Rightarrow> (Inl x, w1)
          | (Inr record, w1) \<Rightarrow>
              broadcast e
                (JObj [(''type'', JStr ''data_created''),
                       (''data'', JObj [(''id'', JStr (record_id record)),
                                        (''title'', title record),
                                        (''value'', value' record)])])
                (Some d) w1))"
      by (cases res) (simp_all add: acm inv1 broadcast_ok(2))
  qed
  then show ?thesis using assms
    by (simp add: replay_create_def split: sum.splits)
qed

lemma replay_update_inv:
  assumes "manager_inv w"
  shows "manager_inv (snd (replay_update e d op w))"
proof -
  have "\<And>rows n. manager_inv (w\<lparr>db := rows, clock_reads := n\<rparr>)"
    using assms by (simp add: manager_inv_def)
  then show ?thesis using assms
    by (simp add: replay_update_def Let_def broadcast_ok(2) split: sum.splits option.splits)
qed

lemma replay_delete_inv:
  assumes "manager_inv w"
  shows "manager_inv (snd (replay_delete e d op w))"
proof -
  have "\<And>rows. manager_inv (w\<lparr>db := rows\<rparr>)"
    using assms by (simp add: manager_inv_def)
  then show ?thesis using assms
    by (simp add: replay_delete_def broadcast_ok(2) split: sum.splits option.splits)
qed

lemma replay_op_inv:
  "manager_inv w \<Longrightarrow> manager_inv (snd (replay_op e d op w))"
  by (simp add: replay_op_def replay_create_inv replay_update_inv replay_delete_inv
      split: sum.splits)

lemma replay_inv:
  "manager_inv w \<Longrightarrow> manager_inv (snd (replay e d ops w))"
proof (induction ops arbitrary: w)
  case Nil
  then show ?case by simp
next
  case (Cons op ops)
  obtain res w1 where ro: "replay_op e d op w = (res, w1)" by (metis surj_pair)
  have inv1: "manager_inv w1" using replay_op_inv [OF Cons.prems, of e d op] by (simp add: ro)
  show ?case
    by (cases res) (simp_all add: ro inv1 Cons.IH [OF inv1])
qed

lemma sync_offline_queue_inv:
  "manager_inv w \<Longrightarrow> manager_inv (snd (sync_offline_queue e d data w))"
  by (simp add: sync_offline_queue_def replay_inv split: sum.splits)

lemma register_device_inv:
  "manager_inv w \<Longrightarrow> manager_inv (snd (register_device d data w))"
proof (cases "map_of (device_registry w) d")
  case None
  assume "manager_inv w"
  then show ?thesis by (simp add: register_device_def None)
next
  case (Some info)
  assume inv: "manager_inv w"
  from Some have "(d, info) \<in> set (device_registry w)" by (rule map_of_SomeD)
  then have "d \<in> fst ` set (device_registry w)" by force
  then have "insert d (fst ` set (device_registry w)) = fst ` set (device_registry w)" by blast
  then show ?thesis using inv
    by (simp add: register_device_def Some manager_inv_def update_key_set)
qed

lemma sync_request_inv:
  "manager_inv w \<Longrightarrow> manager_inv (snd (sync_request e d w))"
  by (simp add: sync_request_def send_personal_message_ok(2) manager_inv_frame)

lemma compute_request_inv:
  assumes "manager_inv w"
  shows "manager_inv (snd (compute_request e d data w))"
proof -
  have "\<And>rows n. manager_inv (w\<lparr>db := rows, clock_reads := n\<rparr>)"
    using assms by (simp add: manager_inv_def)
  then show ?thesis using assms
    by (simp add: compute_request_def Let_def broadcast_ok(2) split: sum.splits option.splits)
qed

lemma handle_message_inv:
  "manager_inv w \<Longrightarrow> manager_inv (snd (handle_message e d data w))"
  by (cases data)
     (simp_all add: handle_message_def Let_def register_device_inv sync_request_inv
        sync_offline_queue_inv compute_request_inv)

lemma receive_loop_inv:
  "manager_inv w \<Longrightarrow> manager_inv (snd (receive_loop e d incoming w))"
proof (induction incoming arbitrary: w)
  case Nil
  then show ?case by simp
next
  case (Cons data later)
  obtain res w1 where hm: "handle_message e d data w = (res, w1)" by (metis surj_pair)
  have inv1: "manager_inv w1" using handle_message_inv [OF Cons.prems, of e d data]
    by (simp add: hm)
  show ?case
    by (cases res) (simp_all add: hm inv1 Cons.IH [OF inv1])
qed

section \<open>The stale update (claim C8)\<close>

text \<open>
  Claim C8. On a server whose manager is consistent and whose next identifier is new:
  the POST of \<open>{title: "t", value: 16}\<close> answers with version 1; the PUT of
  \<open>{value: 20, version: 1}\<close> on the new id answers \<open>{version: 2, status: updated}\<close> and leaves
  the record with the title \<open>t\<close>, the value 20 and its \<open>computed_result\<close> and \<open>created_at\<close>
  as they were; a second PUT, of \<open>{value: 30, version: 1}\<close>, answers with the version
  conflict and \<open>current_version = 2\<close>, and changes nothing.
\<close>

theorem stale_update_scenario:
  assumes "manager_inv w"
    and "find (\<lambda>x. record_id x = uuid4 e (uuid_reads w)) (db w) = None"
  shows "let A = uuid4 e (uuid_reads w);
             c = create_data e [(''title'', JStr ''t''), (''value'', JNum 16)] w;
             u1 = update_data e A [(''value'', JNum 20), (''version'', JInt 1)] (snd c);
             u2 = update_data e A [(''value'', JNum 30), (''version'', JInt 1)] (snd u1)
         in fst c = Inr (JObj [(''id'', JStr A), (''version'', JInt 1)])
          \<and> fst u1 = Inr (JObj [(''version'', JInt 2), (''status'', JStr ''updated'')])
          \<and> (\<exists>r. record_in A (snd u1) = Some r \<and> title r = JStr ''t'' \<and>
                   value' r = JNum 20 \<and> computed_result r = JNull \<and> version r = 2 \<and>
                   created_at r = utcnow e (clock_reads w))
          \<and> u2 = (Inr (JObj [(''error'', JStr ''version_conflict''),
                               (''current_version'', JInt 2),
                               (''status'', JStr ''conflict'')]), snd u1)"
proof -
  let ?A = "uuid4 e (uuid_reads w)"
  let ?P = "[(''title'', JStr ''t''), (''value'', JNum 16)]"
  let ?P1 = "[(''value'', JNum 20), (''version'', JInt 1)]"
  let ?P2 = "[(''value'', JNum 30), (''version'', JInt 1)]"
  let ?c = "create_data e ?P w"
  let ?u1 = "update_data e ?A ?P1 (snd ?c)"
  let ?r0 = "new_record e (JStr ''t'') (JNum 16) w"
  have dg: "dict_get ?P ''title'' JNull = JStr ''t''" "dict_get ?P ''value'' (JNum 0) = JNum 16"
    by (simp_all add: dict_get_def)
  have c1: "fst ?c = Inr (JObj [(''id'', JStr ?A), (''version'', JInt 1)])"
    by (rule create_data_fresh(4) [OF assms(2,1)])
  have cdb: "db (snd ?c) = db w @ [?r0]"
    using create_data_fresh(1) [OF assms(2), of ?P] by (simp only: dg)
  have cin: "record_in ?A (snd ?c) = Some ?r0"
    using assms(2) cdb by (rule record_in_new)
  then have cf: "first_by_id (JStr ?A) (db (snd ?c)) = Some ?r0" by (simp add: record_in_def)
  have cinv: "manager_inv (snd ?c)" using assms(1) by (rule create_data_inv)
  have v0: "version ?r0 = 1" by (simp add: new_record_def)
  have ns1: "py_eq_int (dict_get ?P1 ''version'' (JNum 0)) 0 \<or>
             py_eq_int (dict_get ?P1 ''version'' (JNum 0)) (version ?r0)"
    by (simp add: dict_get_def v0 py_eq_int_JInt)
  let ?r1 = "?r0\<lparr>title := dict_get ?P1 ''title'' (title ?r0),
                value' := dict_get ?P1 ''value'' (value' ?r0),
                computed_result := dict_get ?P1 ''computed_result'' (computed_result ?r0),
                version := version ?r0 + 1,
                updated_at := utcnow e (clock_reads (snd ?c))\<rparr>"
  have u1ok: "fst ?u1 = Inr (JObj [(''version'', JInt 2), (''status'', JStr ''updated'')])"
    using update_data_ok [OF cinv cf ns1, of e] by (simp add: v0)
  have u1db: "db (snd ?u1) = commit_record ?r1 (db (snd ?c))"
    by (rule update_data_applied(1) [OF cf ns1])
  have id1: "record_id ?r1 = ?A" by (simp add: new_record_def)
  have u1in: "record_in ?A (snd ?u1) = Some ?r1"
    using cin id1 u1db by (rule record_in_commit)
  then have u1f: "first_by_id (JStr ?A) (db (snd ?u1)) = Some ?r1" by (simp add: record_in_def)
  have v1: "version ?r1 = 2" by (simp add: new_record_def)
  have r1: "title ?r1 = JStr ''t'' \<and> value' ?r1 = JNum 20 \<and> computed_result ?r1 = JNull \<and>
            version ?r1 = 2 \<and> created_at ?r1 = utcnow e (clock_reads w)"
    by (simp add: new_record_def dict_get_def)
  have s2: "\<not> py_eq_int (dict_get ?P2 ''version'' (JNum 0)) 0"
           "\<not> py_eq_int (dict_get ?P2 ''version'' (JNum 0)) (version ?r1)"
    by (simp_all add: dict_get_def v0 py_eq_int_JInt)
  have u2: "update_data e ?A ?P2 (snd ?u1) =
      (Inr (JObj [(''error'', JStr ''version_conflict''),
                  (''current_version'', JInt 2),
                  (''status'', JStr ''conflict'')]), snd ?u1)"
    using update_data_stale [OF u1f s2, of e] by (simp only: v1)
  show ?thesis
    unfolding Let_def using c1 u1ok u1in r1 u2 by blast
qed


text \<open>The scenario on the server after start.\<close>

theorem stale_update_scenario_witness:
  "manager_inv world0 \<and>
   find (\<lambda>x. record_id x = uuid4 env0 (uuid_reads world0)) (db world0) = None \<and>
   fst (create_data env0 [(''title'', JStr ''t''), (''value'', JNum 16)] world0) =
     Inr (JObj [(''id'', JStr ''r''), (''version'', JInt 1)]) \<and>
   fst (update_data env0 ''r'' [(''value'', JNum 20), (''version'', JInt 1)]
          (snd (create_data env0 [(''title'', JStr ''t''), (''value'', JNum 16)] world0))) =
     Inr (JObj [(''version'', JInt 2), (''status'', JStr ''updated'')]) \<and>
   update_data env0 ''r'' [(''value'', JNum 30), (''version'', JInt 1)]
     (snd (update_data env0 ''r'' [(''value'', JNum 20), (''version'', JInt 1)]
        (snd (create_data env0 [(''title'', JStr ''t''), (''value'', JNum 16)] world0)))) =
     (Inr (JObj [(''error'', JStr ''version_conflict''),
                 (''current_version'', JInt 2),
                 (''status'', JStr ''conflict'')]),
      snd (update_data env0 ''r'' [(''value'', JNum 20), (''version'', JInt 1)]
        (snd (create_data env0 [(''title'', JStr ''t''), (''value'', JNum 16)] world0))))"
proof -
  have h1: "manager_inv world0" by (simp add: manager_inv_def world0_def)
  have h2: "find (\<lambda>x. record_id x = uuid4 env0 (uuid_reads world0)) (db world0) = None"
    by (simp add: world0_def)
  have a: "uuid4 env0 (uuid_reads world0) = ''r''" by (simp add: env0_def world0_def)
  show ?thesis
    using stale_update_scenario [OF h1 h2] h1 h2 unfolding Let_def a by blast
qed

section \<open>Creation (claim C7)\<close>




section \<open>Replay of a batch: auxiliary facts\<close>

lemma replay_append:
  "replay e d (ops1 @ ops2) w =
     (case replay e d ops1 w of
        (Inl x, w1) \<Rightarrow> (Inl x, w1)
      | (Inr v, w1) \<Rightarrow> replay e d ops2 w1)"
proof (induction ops1 arbitrary: w)
  case Nil
  then show ?case by simp
next
  case (Cons op ops1)
  obtain res w1 where ro: "replay_op e d op w = (res, w1)" by (metis surj_pair)
  show ?case by (cases res) (simp_all add: ro Cons.IH)
qed

lemma find_None_ids:
  "find (\<lambda>x. record_id x = k) rows = None \<Longrightarrow> \<forall>x \<in> set rows. record_id x \<noteq> k"
  by (simp add: find_None_iff)

lemma commit_record_append:
  "\<forall>x \<in> set rows. record_id x \<noteq> record_id r0 \<Longrightarrow> record_id r1 = record_id r0 \<Longrightarrow>
   commit_record r1 (rows @ [r0]) = rows @ [r1]"
  by (induction rows) (simp_all add: commit_record_def)

lemma delete_commit_append:
  "\<forall>x \<in> set rows. record_id x \<noteq> record_id r1 \<Longrightarrow> delete_commit r1 (rows @ [r1]) = rows"
  by (induction rows) (simp_all add: delete_commit_def)

lemma sweep_log_nofail:
  "\<forall>n. \<not> send_raises e n \<Longrightarrow>
   sweep_log e msg ex conns n =
     map (\<lambda>kv. (fst kv, snd kv, msg, True)) (filter (\<lambda>kv. \<not> is_excluded ex (fst kv)) conns)"
  by (induction conns arbitrary: n) auto

lemma failed_ids_nofail:
  "\<forall>n. \<not> send_raises e n \<Longrightarrow> failed_ids (sweep_log e msg ex conns n) = []"
  by (simp add: sweep_log_nofail failed_ids_def)

lemma broadcast_connections_nofail:
  assumes "manager_inv w" and "\<forall>n. \<not> send_raises e n"
  shows "active_connections (snd (broadcast e msg ex w)) = active_connections w"
  by (simp add: broadcast_eq [OF assms(1)] failed_ids_nofail [OF assms(2)])

lemma broadcast_send_calls:
  "send_calls (snd (broadcast e msg ex w)) =
     send_calls w + length (sweep_log e msg ex (active_connections w) (send_calls w))"
  by (simp add: broadcast_snd prune_frame)

lemma replay_delete_applied:
  assumes "py_index op ''record_id'' = Inr rid" and "first_by_id rid (db w) = Some r"
  shows "replay_delete e d op w =
     broadcast e (JObj [(''type'', JStr ''data_deleted''), (''record_id'', rid)]) (Some d)
       (w\<lparr>db := delete_commit r (db w)\<rparr>)"
  by (simp add: replay_delete_def assms)

end
